theory Spec2Isabelle
  imports Complex_Main "HOL-Library.Word"
begin

section \<open>Unified Media Converter: the equaliser model and the FIR engine\<close>

text \<open>
  A shallow embedding of the DSP helpers of \<^verbatim>\<open>src/src/unified_media_converter.py\<close>:
  the \<^verbatim>\<open>Band\<close> dataclass, \<^verbatim>\<open>UnifiedApp._effective_bands\<close>, the three biquad
  responses, \<^verbatim>\<open>compute_total_response\<close>, \<^verbatim>\<open>design_linear_phase_fir\<close>,
  \<^verbatim>\<open>next_pow2\<close> and \<^verbatim>\<open>overlap_add_convolve_wav\<close>.

  Python floats and numpy's \<^verbatim>\<open>float64\<close>/\<^verbatim>\<open>complex128\<close> are modelled by the exact
  reals and complex numbers: rounding, infinities and NaN are outside the model.
  Where numpy would produce \<^verbatim>\<open>inf\<close> or \<^verbatim>\<open>nan\<close> from a division by zero (a
  sample rate of 0, a vanishing biquad denominator), HOL's total division yields \<open>0\<close>:
  the model and the code differ there, and every concrete evaluation below stays away
  from such inputs.
\<close>

subsection \<open>Data model\<close>

text \<open>
  \<^verbatim>\<open>@dataclass class Band\<close>. The fields keep the source's names behind the prefix
  \<open>band_\<close> (the source's \<^verbatim>\<open>type\<close>, \<^verbatim>\<open>f\<close>, \<^verbatim>\<open>g\<close> would otherwise capture common
  variable names). \<^verbatim>\<open>type\<close> and \<^verbatim>\<open>width_type\<close> are strings in the source and stay
  strings here, so that the source's fall-through branches for unknown values exist.
\<close>

record band =
  band_type :: string
  band_f :: real
  band_width_type :: string
  band_width :: real
  band_g :: real
  band_muted :: bool
  band_solo :: bool
  band_invert :: bool

text \<open>The dataclass defaults: \<^verbatim>\<open>Band()\<close>.\<close>

definition Band :: band where
  "Band = \<lparr>band_type = ''parametric'', band_f = 1000, band_width_type = ''q'',
      band_width = 1, band_g = 0, band_muted = False, band_solo = False,
      band_invert = False\<rparr>"

text \<open>\<^verbatim>\<open>Band.copy\<close>: \<^verbatim>\<open>Band(**asdict(self))\<close> rebuilds the value field by field.\<close>

definition copy :: "band \<Rightarrow> band" where
  "copy b = \<lparr>band_type = band_type b, band_f = band_f b,
      band_width_type = band_width_type b, band_width = band_width b,
      band_g = band_g b, band_muted = band_muted b, band_solo = band_solo b,
      band_invert = band_invert b\<rparr>"

subsection \<open>Effective bands\<close>

text \<open>Python's \<^verbatim>\<open>any(...)\<close> over a generator: true at the first true element.\<close>

fun py_any :: "('a \<Rightarrow> bool) \<Rightarrow> 'a list \<Rightarrow> bool" where
  "py_any p [] = False"
| "py_any p (x # xs) = (if p x then True else py_any p xs)"

text \<open>
  \<^verbatim>\<open>UnifiedApp._effective_bands\<close>, with \<^verbatim>\<open>self.bands\<close> passed as the argument:
  \<^verbatim>\<open>
  if any(b.solo for b in self.bands):
      return [b.copy() for b in self.bands if b.solo]
  return [b.copy() for b in self.bands if not b.muted]
  \<close>
\<close>

definition effective_bands :: "band list \<Rightarrow> band list" where
  "effective_bands bands =
     (if py_any band_solo bands
      then map copy (filter band_solo bands)
      else map copy (filter (\<lambda>b. \<not> band_muted b) bands))"

text \<open>
  The rule as the specification words it, on sets: the solo bands when there is one,
  the unmuted bands otherwise.
\<close>

definition effective_set_spec :: "band list \<Rightarrow> band set" where
  "effective_set_spec bands =
     (if \<exists>b \<in> set bands. band_solo b
      then {b \<in> set bands. band_solo b}
      else {b \<in> set bands. \<not> band_muted b})"

subsection \<open>Biquad responses\<close>

text \<open>
  The local values of \<^verbatim>\<open>peaking_eq_response\<close> that depend on the band only, each
  under the name the source gives it:
  \<^verbatim>\<open>
  f0 = float(max(1.0, min(band.f, fs/2 - 1)))
  G = 10**(band.g / 40.0)
  if band.width_type == 'q':
      Q = max(0.01, float(band.width))
  else:
      bw = max(0.001, float(band.width))
      f2 = f0 * (2**(bw/2))
      f1 = f0 / (2**(bw/2))
      denom = (f2 - f1)
      Q = f0 / denom if denom > 1e-12 else 1.0
  \<close>
  A float power with a positive base is \<open>powr\<close>.
\<close>

definition peaking_f0 :: "band \<Rightarrow> real \<Rightarrow> real" where
  "peaking_f0 b fs = max 1 (min (band_f b) (fs / 2 - 1))"

definition peaking_G :: "band \<Rightarrow> real" where
  "peaking_G b = 10 powr (band_g b / 40)"

definition peaking_Q :: "band \<Rightarrow> real \<Rightarrow> real" where
  "peaking_Q b fs =
     (let f0 = peaking_f0 b fs in
      if band_width_type b = ''q'' then max (1 / 100) (band_width b)
      else
        let bw = max (1 / 1000) (band_width b);
            f2 = f0 * (2 powr (bw / 2));
            f1 = f0 / (2 powr (bw / 2));
            denom = f2 - f1
        in if denom > 1 / 10 ^ 12 then f0 / denom else 1)"

text \<open>
  The evaluation rule shared by the three responses, at one frequency \<open>fq\<close> of the
  array \<^verbatim>\<open>freqs\<close>:
  \<^verbatim>\<open>
  ws = 2 * math.pi * freqs / fs
  z1 = np.exp(-1j * ws);  z2 = np.exp(-2j * ws)
  H = (b0 + b1 * z1 + b2 * z2) / (a0 + a1 * z1 + a2 * z2)
  \<close>
\<close>

definition biquad_eval ::
  "real \<Rightarrow> real \<Rightarrow> real \<Rightarrow> real \<Rightarrow> real \<Rightarrow> real \<Rightarrow> real \<Rightarrow> real \<Rightarrow> complex" where
  "biquad_eval b0 b1 b2 a0 a1 a2 fs fq =
     (let ws = 2 * pi * fq / fs;
          z1 = exp (- (\<i> * complex_of_real ws));
          z2 = exp (- (2 * \<i> * complex_of_real ws));
          num = complex_of_real b0 + complex_of_real b1 * z1 + complex_of_real b2 * z2;
          den = complex_of_real a0 + complex_of_real a1 * z1 + complex_of_real a2 * z2
      in num / den)"

text \<open>
  \<^verbatim>\<open>peaking_eq_response(band, freqs, fs)\<close>: the peaking coefficients, the evaluation
  over the whole array and the sign flip \<^verbatim>\<open>if band.invert: H = -H\<close>.
\<close>

definition peaking_eq_response :: "band \<Rightarrow> real list \<Rightarrow> real \<Rightarrow> complex list" where
  "peaking_eq_response b freqs fs =
     (let f0 = peaking_f0 b fs;
          G = peaking_G b;
          Q = peaking_Q b fs;
          w0 = 2 * pi * f0 / fs;
          cosw0 = cos w0;
          sinw0 = sin w0;
          alpha = sinw0 / (2 * Q);
          b0 = 1 + alpha * G;
          b1 = - 2 * cosw0;
          b2 = 1 - alpha * G;
          a0 = 1 + alpha / G;
          a1 = - 2 * cosw0;
          a2 = 1 - alpha / G;
          H = map (biquad_eval b0 b1 b2 a0 a1 a2 fs) freqs
      in if band_invert b then map uminus H else H)"

text \<open>\<^verbatim>\<open>lowpass_response(fc, freqs, fs)\<close>: it receives the cutoff only, not the band.\<close>

definition lowpass_response :: "real \<Rightarrow> real list \<Rightarrow> real \<Rightarrow> complex list" where
  "lowpass_response fc freqs fs =
     (let Q = 1 / sqrt 2;
          w0 = 2 * pi * fc / fs;
          cosw0 = cos w0;
          sinw0 = sin w0;
          alpha = sinw0 / (2 * Q);
          b0 = (1 - cosw0) / 2;
          b1 = 1 - cosw0;
          b2 = (1 - cosw0) / 2;
          a0 = 1 + alpha;
          a1 = - 2 * cosw0;
          a2 = 1 - alpha
      in map (biquad_eval b0 b1 b2 a0 a1 a2 fs) freqs)"

text \<open>\<^verbatim>\<open>highpass_response(fc, freqs, fs)\<close>.\<close>

definition highpass_response :: "real \<Rightarrow> real list \<Rightarrow> real \<Rightarrow> complex list" where
  "highpass_response fc freqs fs =
     (let Q = 1 / sqrt 2;
          w0 = 2 * pi * fc / fs;
          cosw0 = cos w0;
          sinw0 = sin w0;
          alpha = sinw0 / (2 * Q);
          b0 = (1 + cosw0) / 2;
          b1 = - (1 + cosw0);
          b2 = (1 + cosw0) / 2;
          a0 = 1 + alpha;
          a1 = - 2 * cosw0;
          a2 = 1 - alpha
      in map (biquad_eval b0 b1 b2 a0 a1 a2 fs) freqs)"

subsection \<open>Composite response\<close>

text \<open>\<^verbatim>\<open>np.ones_like(freqs, dtype=complex)\<close>.\<close>

definition ones_like :: "real list \<Rightarrow> complex list" where
  "ones_like freqs = map (\<lambda>_. 1) freqs"

text \<open>
  The response of one band as \<^verbatim>\<open>compute_total_response\<close> selects it: the band itself
  goes to \<^verbatim>\<open>peaking_eq_response\<close>, only \<^verbatim>\<open>b.f\<close> to the other two, and an unknown
  \<^verbatim>\<open>type\<close> contributes ones.
\<close>

definition band_response :: "band \<Rightarrow> real list \<Rightarrow> real \<Rightarrow> complex list" where
  "band_response b freqs fs =
     (if band_type b = ''parametric'' then peaking_eq_response b freqs fs
      else if band_type b = ''lowpass'' then lowpass_response (band_f b) freqs fs
      else if band_type b = ''highpass'' then highpass_response (band_f b) freqs fs
      else ones_like freqs)"

text \<open>
  The loop \<^verbatim>\<open>for b in bands: ...; H_total *= H\<close>, with \<^verbatim>\<open>H_total\<close> as the
  accumulator; \<^verbatim>\<open>*=\<close> is the elementwise product of two arrays of one length.
\<close>

fun total_response_loop ::
  "band list \<Rightarrow> real list \<Rightarrow> real \<Rightarrow> complex list \<Rightarrow> complex list" where
  "total_response_loop [] freqs fs H_total = H_total"
| "total_response_loop (b # bands) freqs fs H_total =
     total_response_loop bands freqs fs (map2 (*) H_total (band_response b freqs fs))"

definition compute_total_response :: "band list \<Rightarrow> real list \<Rightarrow> real \<Rightarrow> complex list" where
  "compute_total_response bands freqs fs =
     total_response_loop bands freqs fs (ones_like freqs)"

text \<open>
  The magnitude in decibels as the visualiser and \<^verbatim>\<open>export_visual_csv\<close> compute it:
  \<^verbatim>\<open>mag = 20 * np.log10(np.maximum(np.abs(H), 1e-12))\<close>.
\<close>

definition magnitude_db :: "complex list \<Rightarrow> real list" where
  "magnitude_db H = map (\<lambda>h. 20 * log 10 (max (cmod h) (1 / 10 ^ 12))) H"

subsection \<open>Errors and the numpy primitives\<close>

text \<open>
  The exceptions that the modelled code can raise, each with the operation that raises
  it. \<^verbatim>\<open>RuntimeError\<close> is the source's own \<^verbatim>\<open>raise\<close>; the \<^verbatim>\<open>ValueError\<close>s come
  from numpy.
\<close>

datatype py_error =
    RuntimeError string
  | ValueError string



text \<open>
  The inverse discrete Fourier transform \<^verbatim>\<open>np.fft.ifft(a)\<close>:
  \<open>a\<^sub>m = (1/n) \<Sum>\<^sub>k A\<^sub>k exp(2\<pi>i mk/n)\<close>, and \<^verbatim>\<open>ValueError\<close> on no data point.
\<close>

definition idft :: "complex list \<Rightarrow> nat \<Rightarrow> complex" where
  "idft zs m =
     (\<Sum>k<length zs. zs ! k * cis (2 * pi * real m * real k / real (length zs)))
       / of_nat (length zs)"


text \<open>
  \<^verbatim>\<open>np.fft.rfft(x, n=N)\<close> on real input: the input is cropped or zero-padded to \<open>N\<close>
  points and the bins \<open>0 .. N div 2\<close> of the forward transform
  \<open>A\<^sub>k = \<Sum>\<^sub>m a\<^sub>m exp(-2\<pi>i mk/n)\<close> are returned. The engine calls it with \<open>N \<ge> 1\<close>
  only (\<open>next_pow2\<close> is a power of two), so numpy's error for \<open>N < 1\<close> does not arise.
\<close>

definition pad_to :: "nat \<Rightarrow> real list \<Rightarrow> real list" where
  "pad_to n x = take n x @ replicate (n - length x) 0"

definition np_rfft :: "real list \<Rightarrow> nat \<Rightarrow> complex list" where
  "np_rfft x N =
     map (\<lambda>k. \<Sum>j<N. complex_of_real (pad_to N x ! j)
                       * cis (- (2 * pi * real j * real k / real N)))
         [0..<N div 2 + 1]"

text \<open>
  \<^verbatim>\<open>np.fft.irfft(a, n=N)\<close>: the bins \<open>0 .. N div 2\<close> of \<open>a\<close> are completed to \<open>N\<close>
  bins by Hermitian symmetry (bin \<open>N - k\<close> is the conjugate of bin \<open>k\<close>), the inverse
  transform is taken and its real part returned.
\<close>

definition hermitian_full :: "complex list \<Rightarrow> nat \<Rightarrow> complex list" where
  "hermitian_full a N = map (\<lambda>k. if k \<le> N div 2 then a ! k else cnj (a ! (N - k))) [0..<N]"

definition np_irfft :: "complex list \<Rightarrow> nat \<Rightarrow> real list" where
  "np_irfft a N = map (\<lambda>m. Re (idft (hermitian_full a N) m)) [0..<N]"

text \<open>
  Addition of two two-dimensional arrays with the same number of columns, as
  \<^verbatim>\<open>Y[:m, :] + overlap[:m, :]\<close> needs it. An array is the list of its rows. numpy
  broadcasts along the rows: equal row counts add row by row, a one-row operand is
  added to every row of the other (also when the other has no row), and any other
  pair of row counts raises \<^verbatim>\<open>ValueError\<close>.
\<close>

definition np_add :: "real list list \<Rightarrow> real list list \<Rightarrow> py_error + real list list" where
  "np_add A B =
     (if length A = length B then Inr (map2 (map2 (+)) A B)
      else if length B = 1 then Inr (map (\<lambda>a. map2 (+) a (hd B)) A)
      else if length A = 1 then Inr (map (\<lambda>b. map2 (+) (hd A) b) B)
      else Inl (ValueError ''operands could not be broadcast together''))"

subsection \<open>FIR design\<close>





subsection \<open>Streaming convolution\<close>

text \<open>
  Python's \<^verbatim>\<open>int.bit_length\<close> (the number of bits of the absolute value) and
  \<^verbatim>\<open>next_pow2(x) = 1 << (x - 1).bit_length()\<close>.
\<close>

function bit_length :: "int \<Rightarrow> nat" where
  "bit_length x = (if x = 0 then 0 else Suc (bit_length (\<bar>x\<bar> div 2)))"
  by pat_completeness auto
termination
  by (relation "measure (\<lambda>x. nat \<bar>x\<bar>)") auto

definition next_pow2 :: "int \<Rightarrow> nat" where
  "next_pow2 x = 2 ^ bit_length (x - 1)"

text \<open>
  A 16-bit WAV file as the \<^verbatim>\<open>wave\<close> module presents it: the header fields and the
  frames, each frame holding one \<^verbatim>\<open>int16\<close> sample per channel. \<^verbatim>\<open>getnframes()\<close> is
  the number of frames. For another sample width the frames are never decoded.
\<close>

type_synonym int16 = "16 word"

record wav_file =
  wav_nchannels :: nat
  wav_sampwidth :: nat
  wav_framerate :: nat
  wav_frames :: "int16 list list"

text \<open>An entry \<^verbatim>\<open>('progress', (task_id, pct))\<close> of the UI queue.\<close>

datatype ui_event = Progress string real

text \<open>
  \<^verbatim>\<open>np.clip(v, -32767, 32767).astype(np.int16)\<close> on one sample: the clip is
  \<^verbatim>\<open>minimum(maximum(v, lo), hi)\<close>, the conversion truncates towards zero.
\<close>

definition trunc_int :: "real \<Rightarrow> int" where
  "trunc_int v = (if 0 \<le> v then \<lfloor>v\<rfloor> else \<lceil>v\<rceil>)"

definition np_clip :: "real \<Rightarrow> real \<Rightarrow> real \<Rightarrow> real" where
  "np_clip v lo hi = min (max v lo) hi"

definition clamp16 :: "real \<Rightarrow> int16" where
  "clamp16 v = word_of_int (trunc_int (np_clip v (- 32767) 32767))"

text \<open>
  One pass of the block loop on the frames just read: decode, convolve each channel by
  FFT, add the carried overlap, and cut the new overlap.
  \<^verbatim>\<open>
  data = np.frombuffer(frames, dtype=np.int16).astype(np.float64).reshape(-1, nch)
  m = data.shape[0]
  Y = np.zeros((N, nch), dtype=np.float64)
  for ch in range(nch):
      x = data[:, ch]
      X = np.fft.rfft(x, n=N)
      y = np.fft.irfft(X * H, n=N)
      Y[:, ch] = y
  out_block = Y[:m, :] + overlap[:m, :]
  ...
  overlap_new = Y[m:m + (Lh - 1), :]
  if overlap_new.shape[0] < (Lh - 1):
      pad = np.zeros(((Lh - 1) - overlap_new.shape[0], nch), dtype=np.float64)
      overlap = np.vstack([overlap_new, pad])
  else:
      overlap = overlap_new
  \<close>
  The result is \<^verbatim>\<open>out_block\<close> and the new \<^verbatim>\<open>overlap\<close>, or the error of the addition.
\<close>

definition block_Y :: "complex list \<Rightarrow> nat \<Rightarrow> nat \<Rightarrow> real list list \<Rightarrow> real list list" where
  "block_Y H N nch data =
     (let cols = map (\<lambda>ch. let x = map (\<lambda>row. row ! ch) data;
                               X = np_rfft x N
                           in np_irfft (map2 (*) X H) N) [0..<nch]
      in map (\<lambda>n. map (\<lambda>y. y ! n) cols) [0..<N])"

definition block_step ::
  "complex list \<Rightarrow> nat \<Rightarrow> nat \<Rightarrow> nat \<Rightarrow> real list list \<Rightarrow> int16 list list
     \<Rightarrow> py_error + (real list list \<times> real list list)" where
  "block_step H N nch Lh overlap frames =
     (let data = map (map (\<lambda>s. real_of_int (sint s))) frames;
          m = length data;
          Y = block_Y H N nch data
      in case np_add (take m Y) (take m overlap) of
           Inl e \<Rightarrow> Inl e
         | Inr out_block \<Rightarrow>
             let overlap_new = take (Lh - 1) (drop m Y)
             in Inr (out_block,
                     if length overlap_new < Lh - 1
                     then overlap_new
                            @ replicate ((Lh - 1) - length overlap_new) (replicate nch 0)
                     else overlap_new))"

text \<open>
  The state of the \<^verbatim>\<open>while True\<close> loop: the frames not yet read, the overlap, the
  counter \<^verbatim>\<open>processed\<close>, the frames written to the output so far and the UI queue.
\<close>

record loop_state =
  ls_rest :: "int16 list list"
  ls_overlap :: "real list list"
  ls_processed :: nat
  ls_written :: "int16 list list"
  ls_queue :: "ui_event list"

text \<open>
  The loop. \<^verbatim>\<open>wf_in.readframes(block_size)\<close> takes up to \<^verbatim>\<open>block_size\<close> frames; no
  frame ends the loop. \<open>report\<close> is the truth of \<^verbatim>\<open>ui_queue and task_id\<close>. The loop
  returns the error that ended it, if any, and the state it reached.
\<close>

function convolve_loop ::
  "complex list \<Rightarrow> nat \<Rightarrow> nat \<Rightarrow> nat \<Rightarrow> nat \<Rightarrow> nat \<Rightarrow> bool \<Rightarrow> string \<Rightarrow> loop_state
     \<Rightarrow> py_error option \<times> loop_state" where
  "convolve_loop H N nch Lh block_size total_frames report tid st =
     (let frames = take block_size (ls_rest st) in
      if frames = [] then (None, st)
      else
        case block_step H N nch Lh (ls_overlap st) frames of
          Inl e \<Rightarrow> (Some e, st)
        | Inr (out_block, overlap') \<Rightarrow>
            let m = length frames;
                processed' = ls_processed st + m;
                pct = min 100 (real processed' / real total_frames * 100)
            in convolve_loop H N nch Lh block_size total_frames report tid
                 \<lparr>ls_rest = drop block_size (ls_rest st),
                  ls_overlap = overlap',
                  ls_processed = processed',
                  ls_written = ls_written st @ map (map clamp16) out_block,
                  ls_queue = (if report then ls_queue st @ [Progress tid pct]
                              else ls_queue st)\<rparr>)"
  by pat_completeness auto
termination
  by (relation "measure (\<lambda>(H, N, nch, Lh, block_size, total_frames, report, tid, st).
        length (ls_rest st))") auto

text \<open>
  What a call leaves behind: the exception it raised (if any), the frames of the
  output file (\<open>None\<close> when the file was never opened; a file opened and then closed by
  an exception keeps the frames written before it), and the UI queue.
\<close>

record run_result =
  rr_raised :: "py_error option"
  rr_out_frames :: "int16 list list option"
  rr_queue :: "ui_event list"

text \<open>
  \<^verbatim>\<open>overlap_add_convolve_wav(in_wav, fir, out_wav, block_size, ui_queue, task_id)\<close>.
  \<open>ui_queue\<close> is the content of the queue (\<open>None\<close> for no queue; a \<^verbatim>\<open>queue.Queue\<close>
  object is always true), \<open>task_id\<close> the optional string (true when present and not
  empty), \<open>block_size\<close> a number of frames. The sample-width check comes before the
  output file is opened; \<^verbatim>\<open>np.zeros((Lh - 1, nch))\<close> raises for an empty filter.
\<close>

definition truthy_task_id :: "string option \<Rightarrow> bool" where
  "truthy_task_id task_id = (case task_id of None \<Rightarrow> False | Some t \<Rightarrow> t \<noteq> [])"

definition overlap_add_convolve_wav ::
  "wav_file \<Rightarrow> real list \<Rightarrow> nat \<Rightarrow> ui_event list option \<Rightarrow> string option \<Rightarrow> run_result" where
  "overlap_add_convolve_wav in_wav fir block_size ui_queue task_id =
     (let nch = wav_nchannels in_wav;
          sw = wav_sampwidth in_wav;
          nframes = length (wav_frames in_wav);
          queue0 = (case ui_queue of None \<Rightarrow> [] | Some q \<Rightarrow> q);
          report = (ui_queue \<noteq> None \<and> truthy_task_id task_id);
          tid = (case task_id of None \<Rightarrow> [] | Some t \<Rightarrow> t)
      in if sw \<noteq> 2
         then \<lparr>rr_raised = Some (RuntimeError ''Only 16-bit PCM supported for internal convolution''),
               rr_out_frames = None, rr_queue = queue0\<rparr>
         else
           let Lh = length fir;
               N = next_pow2 (int block_size + int Lh - 1);
               H = np_rfft fir N
           in if Lh = 0
              then \<lparr>rr_raised = Some (ValueError ''negative dimensions are not allowed''),
                    rr_out_frames = Some [], rr_queue = queue0\<rparr>
              else
                case convolve_loop H N nch Lh block_size nframes report tid
                       \<lparr>ls_rest = wav_frames in_wav,
                        ls_overlap = replicate (Lh - 1) (replicate nch 0),
                        ls_processed = 0, ls_written = [], ls_queue = queue0\<rparr> of
                  (Some e, st) \<Rightarrow>
                    \<lparr>rr_raised = Some e, rr_out_frames = Some (ls_written st),
                     rr_queue = ls_queue st\<rparr>
                | (None, st) \<Rightarrow>
                    let tail = ls_overlap st;
                        written = (if length tail > 0
                                   then ls_written st @ map (map clamp16) tail
                                   else ls_written st)
                    in \<lparr>rr_raised = None, rr_out_frames = Some written,
                        rr_queue = (if report then ls_queue st @ [Progress tid 100]
                                    else ls_queue st)\<rparr>)"


declare convolve_loop.simps [simp del]
declare bit_length.simps [simp del]

subsection \<open>Lemmas on the effective bands\<close>

lemma copy_ident: "copy b = b"
  by (simp add: copy_def)

lemma py_any_iff: "py_any p xs \<longleftrightarrow> (\<exists>x \<in> set xs. p x)"
  by (induction xs) auto

lemma effective_bands_filter:
  "effective_bands bands =
     (if \<exists>b \<in> set bands. band_solo b then filter band_solo bands
      else filter (\<lambda>b. \<not> band_muted b) bands)"
proof -
  have "map copy = (\<lambda>xs :: band list. xs)"
    by (rule ext) (simp add: copy_ident map_idI)
  then show ?thesis
    by (simp add: effective_bands_def py_any_iff)
qed

text \<open>
  Claim C4. When a band is soloed the effective bands are exactly the soloed ones, in
  their order and whatever their mute flag; otherwise they are exactly the unmuted ones.
  As a set this is the specification's rule, and for A (unmuted), B (solo), C (muted)
  the result is B alone.
\<close>

theorem effective_bands_rule:
  "((\<exists>b \<in> set bands. band_solo b) \<longrightarrow> effective_bands bands = filter band_solo bands)
   \<and> ((\<forall>b \<in> set bands. \<not> band_solo b) \<longrightarrow>
        effective_bands bands = filter (\<lambda>b. \<not> band_muted b) bands)
   \<and> set (effective_bands bands) = effective_set_spec bands
   \<and> (band_muted A = False \<and> band_solo A = False \<and> band_solo B = True \<and>
        band_muted C = True \<and> band_solo C = False \<longrightarrow>
        effective_bands [A, B, C] = [B])"
proof -
  have "set (effective_bands bands) = effective_set_spec bands"
    by (auto simp: effective_bands_filter effective_set_spec_def)
  moreover have "band_muted A = False \<and> band_solo A = False \<and> band_solo B = True \<and>
        band_muted C = True \<and> band_solo C = False \<longrightarrow>
        effective_bands [A, B, C] = [B]"
    by (simp add: effective_bands_filter)
  ultimately show ?thesis
    by (simp add: effective_bands_filter)
qed

theorem effective_bands_rule_witness:
  "effective_bands
     [Band\<lparr>band_f := 100\<rparr>, Band\<lparr>band_f := 200, band_solo := True, band_muted := True\<rparr>,
      Band\<lparr>band_f := 300, band_muted := True\<rparr>]
   = [Band\<lparr>band_f := 200, band_solo := True, band_muted := True\<rparr>]
   \<and> effective_bands [Band\<lparr>band_f := 100\<rparr>, Band\<lparr>band_f := 300, band_muted := True\<rparr>]
   = [Band\<lparr>band_f := 100\<rparr>]"
  using effective_bands_rule
    [of "[Band\<lparr>band_f := 100\<rparr>,
          Band\<lparr>band_f := 200, band_solo := True, band_muted := True\<rparr>,
          Band\<lparr>band_f := 300, band_muted := True\<rparr>]"
        "Band\<lparr>band_f := 100\<rparr>"
        "Band\<lparr>band_f := 200, band_solo := True, band_muted := True\<rparr>"
        "Band\<lparr>band_f := 300, band_muted := True\<rparr>"]
    effective_bands_rule
    [of "[Band\<lparr>band_f := 100\<rparr>, Band\<lparr>band_f := 300, band_muted := True\<rparr>]"
        "Band\<lparr>band_f := 100\<rparr>"
        "Band\<lparr>band_f := 200, band_solo := True, band_muted := True\<rparr>"
        "Band\<lparr>band_f := 300, band_muted := True\<rparr>"]
  by (simp add: Band_def)

subsection \<open>Lemmas on the peaking width\<close>









subsection \<open>Lemmas on the responses\<close>

lemma total_response_single:
  "compute_total_response [b] freqs fs = map2 (*) (ones_like freqs) (band_response b freqs fs)"
  by (simp add: compute_total_response_def)

lemma peaking_invert_negates:
  "peaking_eq_response (b\<lparr>band_invert := True\<rparr>) freqs fs =
     map uminus (peaking_eq_response (b\<lparr>band_invert := False\<rparr>) freqs fs)"
  by (simp add: peaking_eq_response_def peaking_f0_def peaking_G_def peaking_Q_def Let_def)

lemma biquad_eval_cis:
  "biquad_eval b0 b1 b2 a0 a1 a2 fs fq =
     (complex_of_real b0 + complex_of_real b1 * cis (- (2 * pi * fq / fs))
        + complex_of_real b2 * cis (- (2 * (2 * pi * fq / fs))))
     / (complex_of_real a0 + complex_of_real a1 * cis (- (2 * pi * fq / fs))
        + complex_of_real a2 * cis (- (2 * (2 * pi * fq / fs))))"
  by (simp add: biquad_eval_def Let_def cis_conv_exp algebra_simps)

lemma cis_minus_pi: "cis (- pi) = - 1"
  by (simp add: complex_eq_iff)

lemma cis_minus_2pi: "cis (- (2 * pi)) = 1"
  by (simp add: complex_eq_iff)

lemma band_response_ignores_invert:
  "band_type b \<noteq> ''parametric'' \<Longrightarrow>
     band_response (b\<lparr>band_invert := v\<rparr>) freqs fs = band_response b freqs fs"
  by (simp add: band_response_def)

text \<open>
  Claim C2, at a lowpass and at a highpass band. \<^verbatim>\<open>compute_total_response\<close> hands
  \<^verbatim>\<open>b.f\<close> alone to \<^verbatim>\<open>lowpass_response\<close> and \<^verbatim>\<open>highpass_response\<close>, so the band's
  \<^verbatim>\<open>invert\<close> flag is never read on these paths. With \<open>fs = 44100\<close>, a lowpass at
  11025 Hz evaluated at 0 Hz and a highpass at 11025 Hz evaluated at 22050 Hz have the
  response 1 with the flag set and with the flag clear, where the claim asks for \<open>-1\<close>
  and \<open>1\<close>.
\<close>

theorem lowpass_invert_not_applied:
  "compute_total_response
     [Band\<lparr>band_type := ''lowpass'', band_f := 11025, band_invert := True\<rparr>] [0] 44100 = [1]
   \<and> compute_total_response
     [Band\<lparr>band_type := ''lowpass'', band_f := 11025, band_invert := False\<rparr>] [0] 44100 = [1]
   \<and> compute_total_response
     [Band\<lparr>band_type := ''highpass'', band_f := 11025, band_invert := True\<rparr>] [22050] 44100
       = [1]
   \<and> compute_total_response
     [Band\<lparr>band_type := ''highpass'', band_f := 11025, band_invert := False\<rparr>] [22050] 44100
       = [1]"
proof -
  have lp: "lowpass_response 11025 [0] 44100 = [1]"
    by (simp add: lowpass_response_def biquad_eval_def Let_def)
  have a: "2 * pi * 11025 / 44100 = pi / 2" by simp
  have b: "2 * pi * 22050 / 44100 = pi" by simp
  have hp: "highpass_response 11025 [22050] 44100 = [1]"
    unfolding highpass_response_def Let_def list.map biquad_eval_cis a b
    by (simp add: cis_minus_pi cis_minus_2pi)
  show ?thesis
    by (simp add: total_response_single band_response_def Band_def ones_like_def lp hp)
qed

text \<open>
  Claim C9. With no band the loop body never runs: the composite response is
  \<^verbatim>\<open>np.ones_like(freqs, dtype=complex)\<close>, one at every query frequency, for any grid
  and any sample rate, and its magnitude is 0 dB at every frequency.
\<close>

theorem empty_chain_identity:
  "compute_total_response [] freqs fs = map (\<lambda>_. 1) freqs
   \<and> magnitude_db (compute_total_response [] freqs fs) = map (\<lambda>_. 0) freqs"
  by (simp add: compute_total_response_def ones_like_def magnitude_db_def)

subsection \<open>Lemmas on the block loop\<close>


lemma bit_length_nonneg_gt: "0 \<le> x \<Longrightarrow> x < 2 ^ bit_length x"
proof (induction x rule: bit_length.induct)
  case (1 x)
  show ?case
  proof (cases "x = 0")
    case True
    then show ?thesis by (simp add: bit_length.simps)
  next
    case False
    with "1.prems" have pos: "0 < x" by simp
    have "\<bar>x\<bar> div 2 < 2 ^ bit_length (\<bar>x\<bar> div 2)"
      using "1.IH" [OF False] pos by simp
    then have "x div 2 < 2 ^ bit_length (x div 2)"
      using pos by simp
    then have "x < 2 * 2 ^ bit_length (x div 2)" by linarith
    moreover have "bit_length x = Suc (bit_length (x div 2))"
      using False pos by (subst bit_length.simps) simp
    ultimately show ?thesis by simp
  qed
qed

lemma next_pow2_pos: "0 < next_pow2 x"
  by (simp add: next_pow2_def)

lemma next_pow2_ge: "1 \<le> x \<Longrightarrow> nat x \<le> next_pow2 x"
proof -
  assume x: "1 \<le> x"
  have "x - 1 < 2 ^ bit_length (x - 1)"
    using x by (intro bit_length_nonneg_gt) simp
  then have "x \<le> 2 ^ bit_length (x - 1)" by simp
  then have "nat x \<le> nat (2 ^ bit_length (x - 1))" by (rule nat_mono)
  then show ?thesis by (simp add: next_pow2_def nat_power_eq)
qed

lemma length_block_Y: "length (block_Y H N nch data) = N"
  by (simp add: block_Y_def Let_def)

lemma block_step_broadcast_error:
  assumes "length overlap = Lh - 1" and "Lh - 1 < length frames"
    and "length frames \<noteq> 1" and "Lh \<noteq> 2" and "length frames \<le> N"
  shows "block_step H N nch Lh overlap frames =
           Inl (ValueError ''operands could not be broadcast together'')"
  using assms by (auto simp add: block_step_def np_add_def Let_def length_block_Y)

lemma block_step_error_kind:
  "block_step H N nch Lh overlap frames = Inl e \<Longrightarrow>
     e = ValueError ''operands could not be broadcast together''"
  by (auto simp add: block_step_def np_add_def Let_def split: if_splits sum.splits)

lemma convolve_loop_done:
  "take block_size (ls_rest st) = [] \<Longrightarrow>
     convolve_loop H N nch Lh block_size tot report tid st = (None, st)"
  by (subst convolve_loop.simps) simp

lemma convolve_loop_error:
  "take block_size (ls_rest st) \<noteq> [] \<Longrightarrow>
   block_step H N nch Lh (ls_overlap st) (take block_size (ls_rest st)) = Inl e \<Longrightarrow>
     convolve_loop H N nch Lh block_size tot report tid st = (Some e, st)"
  by (subst convolve_loop.simps) simp

lemma convolve_loop_step:
  "take block_size (ls_rest st) \<noteq> [] \<Longrightarrow>
   block_step H N nch Lh (ls_overlap st) (take block_size (ls_rest st)) = Inr (ob, ov) \<Longrightarrow>
     convolve_loop H N nch Lh block_size tot report tid st =
     convolve_loop H N nch Lh block_size tot report tid
       \<lparr>ls_rest = drop block_size (ls_rest st),
        ls_overlap = ov,
        ls_processed = ls_processed st + length (take block_size (ls_rest st)),
        ls_written = ls_written st @ map (map clamp16) ob,
        ls_queue = (if report
           then ls_queue st @ [Progress tid (min 100
               (real (ls_processed st + length (take block_size (ls_rest st))) / real tot * 100))]
           else ls_queue st)\<rparr>"
  by (subst convolve_loop.simps) (simp add: Let_def)

subsection \<open>Runs that end in the first block\<close>

lemma run_first_block_error:
  assumes "wav_sampwidth w = 2" and "fir \<noteq> []" and "take block_size (wav_frames w) \<noteq> []"
    and "block_step (np_rfft fir (next_pow2 (int block_size + int (length fir) - 1)))
           (next_pow2 (int block_size + int (length fir) - 1)) (wav_nchannels w) (length fir)
           (replicate (length fir - 1) (replicate (wav_nchannels w) 0))
           (take block_size (wav_frames w)) = Inl e"
  shows "overlap_add_convolve_wav w fir block_size ui_queue task_id =
     \<lparr>rr_raised = Some e, rr_out_frames = Some [],
      rr_queue = (case ui_queue of None \<Rightarrow> [] | Some q \<Rightarrow> q)\<rparr>"
  using assms
  by (simp add: overlap_add_convolve_wav_def Let_def convolve_loop_error)

lemma run_single_block:
  assumes "wav_sampwidth w = 2" and "fir \<noteq> []" and "wav_frames w \<noteq> []"
    and "length (wav_frames w) \<le> block_size"
    and "block_step (np_rfft fir (next_pow2 (int block_size + int (length fir) - 1)))
           (next_pow2 (int block_size + int (length fir) - 1)) (wav_nchannels w) (length fir)
           (replicate (length fir - 1) (replicate (wav_nchannels w) 0))
           (wav_frames w) = Inr (ob, ov)"
  shows "overlap_add_convolve_wav w fir block_size ui_queue task_id =
     \<lparr>rr_raised = None,
      rr_out_frames = Some (map (map clamp16) ob @ map (map clamp16) ov),
      rr_queue = (case ui_queue of None \<Rightarrow> [] | Some q \<Rightarrow> q) @
        (if ui_queue \<noteq> None \<and> truthy_task_id task_id
         then [Progress (the task_id) 100, Progress (the task_id) 100] else [])\<rparr>"
proof -
  have tk: "take block_size (wav_frames w) = wav_frames w"
    using assms(4) by simp
  have dr: "drop block_size (wav_frames w) = []"
    using assms(4) by simp
  have pos: "0 < length (wav_frames w)" using assms(3) by simp
  show ?thesis
    using assms(1,2,3,5) pos
    by (cases ov)
       (auto simp add: overlap_add_convolve_wav_def Let_def convolve_loop_step tk dr
        convolve_loop_done truthy_task_id_def split: option.splits)
qed

subsection \<open>Evaluating one block with a two-point transform\<close>









lemma block_step_one_tap_one_frame:
  assumes "1 \<le> N"
  shows "block_step H N nch 1 [] [fr] = Inr ([], [])"
  using assms by (simp add: block_step_def Let_def np_add_def length_block_Y)

lemma run_broadcast_error:
  assumes "wav_sampwidth w = 2" and "3 \<le> length fir"
    and "length fir \<le> length (wav_frames w)" and "length fir \<le> block_size"
  shows "overlap_add_convolve_wav w fir block_size ui_queue task_id =
     \<lparr>rr_raised = Some (ValueError ''operands could not be broadcast together''),
      rr_out_frames = Some [],
      rr_queue = (case ui_queue of None \<Rightarrow> [] | Some q \<Rightarrow> q)\<rparr>"
proof -
  let ?N = "next_pow2 (int block_size + int (length fir) - 1)"
  let ?fr = "take block_size (wav_frames w)"
  have "nat (int block_size + int (length fir) - 1) \<le> ?N"
    using assms(2) by (intro next_pow2_ge) simp
  then have N: "block_size \<le> ?N" using assms(2) by simp
  have len: "length ?fr = min (length (wav_frames w)) block_size" by simp
  have "block_step (np_rfft fir ?N) ?N (wav_nchannels w) (length fir)
          (replicate (length fir - 1) (replicate (wav_nchannels w) 0)) ?fr
        = Inl (ValueError ''operands could not be broadcast together'')"
    using assms N by (intro block_step_broadcast_error) (auto simp add: len)
  moreover have "fir \<noteq> []" "?fr \<noteq> []" using assms by auto
  ultimately show ?thesis
    using assms(1) by (intro run_first_block_error) simp_all
qed

subsection \<open>Clamping\<close>










subsection \<open>A rule for invariants of the block loop\<close>

lemma convolve_loop_invariant:
  assumes run: "convolve_loop H N nch Lh bs tot report tid st = (r, st')"
    and init: "P st"
    and step: "\<And>s ob ov. P s \<Longrightarrow> take bs (ls_rest s) \<noteq> [] \<Longrightarrow>
        block_step H N nch Lh (ls_overlap s) (take bs (ls_rest s)) = Inr (ob, ov) \<Longrightarrow>
        P \<lparr>ls_rest = drop bs (ls_rest s), ls_overlap = ov,
           ls_processed = ls_processed s + length (take bs (ls_rest s)),
           ls_written = ls_written s @ map (map clamp16) ob,
           ls_queue = (if report
             then ls_queue s @ [Progress tid (min 100
               (real (ls_processed s + length (take bs (ls_rest s))) / real tot * 100))]
             else ls_queue s)\<rparr>"
  shows "P st' \<and> (case r of None \<Rightarrow> take bs (ls_rest st') = []
           | Some e \<Rightarrow> take bs (ls_rest st') \<noteq> [] \<and>
               block_step H N nch Lh (ls_overlap st') (take bs (ls_rest st')) = Inl e)"
  using run init
proof (induction "length (ls_rest st)" arbitrary: st rule: less_induct)
  case less
  show ?case
  proof (cases "take bs (ls_rest st) = []")
    case True
    with less.prems show ?thesis by (auto simp add: convolve_loop_done)
  next
    case False
    show ?thesis
    proof (cases "block_step H N nch Lh (ls_overlap st) (take bs (ls_rest st))")
      case (Inl e)
      with False less.prems show ?thesis by (auto simp add: convolve_loop_error)
    next
      case (Inr p)
      obtain ob ov where p: "p = (ob, ov)" by (cases p)
      let ?nx = "\<lparr>ls_rest = drop bs (ls_rest st), ls_overlap = ov,
           ls_processed = ls_processed st + length (take bs (ls_rest st)),
           ls_written = ls_written st @ map (map clamp16) ob,
           ls_queue = (if report
             then ls_queue st @ [Progress tid (min 100
               (real (ls_processed st + length (take bs (ls_rest st))) / real tot * 100))]
             else ls_queue st)\<rparr>"
      have bs: "0 < bs" and ne: "ls_rest st \<noteq> []" using False by auto
      have shorter: "length (ls_rest ?nx) < length (ls_rest st)"
        using bs ne by simp
      have run': "convolve_loop H N nch Lh bs tot report tid ?nx = (r, st')"
        using convolve_loop_step [OF False Inr [unfolded p]] less.prems(1) by simp
      have "P ?nx"
        using step [OF less.prems(2) False Inr [unfolded p]] .
      from less.hyps [OF shorter run' this] show ?thesis .
    qed
  qed
qed

subsection \<open>The sample-width check\<close>

lemma loop_error_kind:
  assumes "convolve_loop H N nch Lh bs tot report tid st = (Some e, st')"
  shows "e = ValueError ''operands could not be broadcast together''"
proof -
  have "block_step H N nch Lh (ls_overlap st') (take bs (ls_rest st')) = Inl e"
    using convolve_loop_invariant [OF assms, of "\<lambda>_. True"] by simp
  then show ?thesis by (rule block_step_error_kind)
qed

lemma run_16bit_no_runtime_error:
  assumes "wav_sampwidth w = 2"
  shows "rr_raised (overlap_add_convolve_wav w fir bs uq tid) \<noteq> Some (RuntimeError msg)
       \<and> rr_out_frames (overlap_add_convolve_wav w fir bs uq tid) \<noteq> None"
proof (cases "fir = []")
  case True
  with assms show ?thesis by (simp add: overlap_add_convolve_wav_def Let_def)
next
  case False
  let ?N = "next_pow2 (int bs + int (length fir) - 1)"
  let ?q0 = "case uq of None \<Rightarrow> [] | Some q \<Rightarrow> q"
  obtain r st' where loop: "convolve_loop (np_rfft fir ?N) ?N (wav_nchannels w) (length fir) bs
      (length (wav_frames w)) (uq \<noteq> None \<and> truthy_task_id tid)
      (case tid of None \<Rightarrow> [] | Some t \<Rightarrow> t)
      \<lparr>ls_rest = wav_frames w,
       ls_overlap = replicate (length fir - 1) (replicate (wav_nchannels w) 0),
       ls_processed = 0, ls_written = [], ls_queue = ?q0\<rparr> = (r, st')"
    by (cases "convolve_loop (np_rfft fir ?N) ?N (wav_nchannels w) (length fir) bs
      (length (wav_frames w)) (uq \<noteq> None \<and> truthy_task_id tid)
      (case tid of None \<Rightarrow> [] | Some t \<Rightarrow> t)
      \<lparr>ls_rest = wav_frames w,
       ls_overlap = replicate (length fir - 1) (replicate (wav_nchannels w) 0),
       ls_processed = 0, ls_written = [], ls_queue = ?q0\<rparr>") auto
  show ?thesis
  proof (cases r)
    case None
    with assms False loop show ?thesis
      by (simp add: overlap_add_convolve_wav_def Let_def)
  next
    case (Some e)
    then have "e = ValueError ''operands could not be broadcast together''"
      using loop loop_error_kind by blast
    with assms False loop Some show ?thesis
      by (simp add: overlap_add_convolve_wav_def Let_def)
  qed
qed

text \<open>
  Claim C7. The check \<^verbatim>\<open>if sw != 2: raise RuntimeError(...)\<close> stands before
  \<^verbatim>\<open>wave.open(out_wav, 'wb')\<close>: for any sample width other than 2 the call raises
  that error, the output file is never opened, no frame is decoded or written and the
  queue is left as it was. For 16-bit input the call never raises that error, and the
  output file is opened.
\<close>

theorem sample_width_rejected:
  "(wav_sampwidth w \<noteq> 2 \<longrightarrow>
      overlap_add_convolve_wav w fir bs uq tid =
        \<lparr>rr_raised = Some (RuntimeError ''Only 16-bit PCM supported for internal convolution''),
         rr_out_frames = None,
         rr_queue = (case uq of None \<Rightarrow> [] | Some q \<Rightarrow> q)\<rparr>)
   \<and> (wav_sampwidth w = 2 \<longrightarrow>
      rr_raised (overlap_add_convolve_wav w fir bs uq tid)
        \<noteq> Some (RuntimeError ''Only 16-bit PCM supported for internal convolution'')
      \<and> rr_out_frames (overlap_add_convolve_wav w fir bs uq tid) \<noteq> None)"
  using run_16bit_no_runtime_error [of w fir bs uq tid]
  by (simp add: overlap_add_convolve_wav_def Let_def)

theorem sample_width_rejected_witness:
  "overlap_add_convolve_wav
     \<lparr>wav_nchannels = 2, wav_sampwidth = 1, wav_framerate = 8000, wav_frames = [[1, 2]]\<rparr>
     [1, 0] 65536 (Some []) (Some ''t'')
   = \<lparr>rr_raised = Some (RuntimeError ''Only 16-bit PCM supported for internal convolution''),
      rr_out_frames = None, rr_queue = []\<rparr>
   \<and> rr_out_frames (overlap_add_convolve_wav
     \<lparr>wav_nchannels = 2, wav_sampwidth = 2, wav_framerate = 8000, wav_frames = [[1, 2]]\<rparr>
     [1, 0] 65536 (Some []) (Some ''t'')) \<noteq> None"
  using sample_width_rejected [of "\<lparr>wav_nchannels = 2, wav_sampwidth = 1, wav_framerate = 8000,
      wav_frames = [[1, 2]]\<rparr>" "[1, 0]" 65536 "Some []" "Some ''t''"]
    sample_width_rejected [of "\<lparr>wav_nchannels = 2, wav_sampwidth = 2, wav_framerate = 8000,
      wav_frames = [[1, 2]]\<rparr>" "[1, 0]" 65536 "Some []" "Some ''t''"]
  by simp

subsection \<open>The broadcast of the overlap\<close>

text \<open>
  Claim C1, at the specification's own example: a two-channel signal of 200 frames, a
  9-tap averaging filter and the default block size 65536. The first block has
  \<open>m = 200\<close> rows while \<^verbatim>\<open>overlap[:m, :]\<close> has \<open>Lh - 1 = 8\<close>, so the addition
  \<^verbatim>\<open>Y[:m, :] + overlap[:m, :]\<close> raises \<^verbatim>\<open>ValueError\<close>: the call ends with that
  exception and an output file without a frame, where direct convolution yields 208
  frames.
\<close>

theorem overlap_add_200_frames_9_taps_raises:
  "overlap_add_convolve_wav
     \<lparr>wav_nchannels = 2, wav_sampwidth = 2, wav_framerate = 44100,
      wav_frames = replicate 200 [1000, - 1000]\<rparr>
     (replicate 9 (1 / 9)) 65536 None None
   = \<lparr>rr_raised = Some (ValueError ''operands could not be broadcast together''),
      rr_out_frames = Some [], rr_queue = []\<rparr>"
  by (subst run_broadcast_error) simp_all

text \<open>
  Claim C10, at two inputs. With one tap the overlap has no row: for one frame the
  broadcast of a one-row block against it is empty, so no frame at all is written
  where the claim counts \<open>F + (L - 1) = 1\<close>. With three taps and five frames in one
  block the addition raises and the file holds no frame where the claim counts 7.
\<close>

theorem frame_count_failing_inputs:
  "overlap_add_convolve_wav
     \<lparr>wav_nchannels = 1, wav_sampwidth = 2, wav_framerate = 44100, wav_frames = [[5]]\<rparr>
     [1] 65536 None None
   = \<lparr>rr_raised = None, rr_out_frames = Some [], rr_queue = []\<rparr>
   \<and> overlap_add_convolve_wav
     \<lparr>wav_nchannels = 1, wav_sampwidth = 2, wav_framerate = 44100,
      wav_frames = [[1], [2], [3], [4], [5]]\<rparr>
     [1 / 3, 1 / 3, 1 / 3] 65536 None None
   = \<lparr>rr_raised = Some (ValueError ''operands could not be broadcast together''),
      rr_out_frames = Some [], rr_queue = []\<rparr>"
proof -
  have "overlap_add_convolve_wav
     \<lparr>wav_nchannels = 1, wav_sampwidth = 2, wav_framerate = 44100, wav_frames = [[5]]\<rparr>
     [1] 65536 None None
   = \<lparr>rr_raised = None, rr_out_frames = Some [], rr_queue = []\<rparr>"
    using run_single_block [of "\<lparr>wav_nchannels = 1, wav_sampwidth = 2,
        wav_framerate = 44100, wav_frames = [[5]]\<rparr>" "[1]" 65536 "[]" "[]" None None]
      block_step_one_tap_one_frame [of "next_pow2 65536" "np_rfft [1] (next_pow2 65536)" 1 "[5]"]
      next_pow2_pos [of 65536]
    by simp
  moreover have "overlap_add_convolve_wav
     \<lparr>wav_nchannels = 1, wav_sampwidth = 2, wav_framerate = 44100,
      wav_frames = [[1], [2], [3], [4], [5]]\<rparr>
     [1 / 3, 1 / 3, 1 / 3] 65536 None None
   = \<lparr>rr_raised = Some (ValueError ''operands could not be broadcast together''),
      rr_out_frames = Some [], rr_queue = []\<rparr>"
    by (subst run_broadcast_error) simp_all
  ultimately show ?thesis by simp
qed

subsection \<open>Clamped output\<close>






subsection \<open>Progress reports\<close>










subsection \<open>Lemmas on the FIR design\<close>































end
